theory Spec2Isabelle
  imports Main "HOL-Library.AList"
begin

section \<open>Data model\<close>

text \<open>
  The tenant entity (\<^verbatim>\<open>tenant.entity.ts\<close>), the two DTOs of \<^verbatim>\<open>tenant.dto.ts\<close>, the
  exceptions the services throw, and the state the services share: the \<^verbatim>\<open>tenants\<close>
  table behind the repository, the physical schemas of the database, the
  \<^verbatim>\<open>DataSource\<close> objects created so far and the \<^verbatim>\<open>tenantConnections\<close> map of
  \<^verbatim>\<open>TenantConnectionService\<close>.
\<close>

datatype TenantStatus = ACTIVE | INACTIVE | SUSPENDED | PENDING

datatype SubscriptionTier = FREE | BASIC | PROFESSIONAL | ENTERPRISE

text \<open>
  Optional columns are \<open>option\<close>s (\<open>None\<close> is SQL NULL / JS undefined). The three
  timestamp columns and the \<^verbatim>\<open>users\<close> relation are not touched by any operation
  modelled here and are left out.

  Modelled from the spec: \<^verbatim>\<open>BaseEntity\<close> (\<^verbatim>\<open>database/entities/base.entity.ts\<close>) is not
  among the sources. The entity takes from it the primary key \<open>id\<close> (the string
  the guard reads from the header and the services look tenants up by) and the
  soft-delete mark that \<^verbatim>\<open>softDelete\<close> sets: a tombstoned row stays in the table
  and ordinary lookups no longer find it (\<open>deleted\<close>).
\<close>

record Tenant =
  id' :: string
  deleted :: bool
  name :: string
  subdomain :: string
  domain :: "string option"
  schemaName :: string
  status :: TenantStatus
  subscriptionTier :: SubscriptionTier
  isActive :: bool
  description :: "string option"
  logo :: "string option"
  website :: "string option"
  contactEmail :: "string option"
  contactPhone :: "string option"
  settings :: "(string \<times> string) list option"
  features :: "string list option"
  maxUsers :: int
  maxProjects :: int
  storageLimit :: int
  storageUsed :: int

record CreateTenantDto =
  c_name :: string
  c_subdomain :: string
  c_domain :: "string option"
  c_description :: "string option"
  c_contactEmail :: "string option"
  c_contactPhone :: "string option"
  c_website :: "string option"
  c_subscriptionTier :: "SubscriptionTier option"
  c_maxUsers :: "int option"
  c_maxProjects :: "int option"
  c_storageLimit :: "int option"

text \<open>
  \<^verbatim>\<open>UpdateTenantDto extends PartialType(CreateTenantDto)\<close>: every field of the
  create DTO, now optional, and five more. There is no \<^verbatim>\<open>schemaName\<close> field, and
  the global validation pipe (\<^verbatim>\<open>whitelist\<close>, \<^verbatim>\<open>forbidNonWhitelisted\<close>) rejects a
  body that carries one.
\<close>

record UpdateTenantDto =
  u_name :: "string option"
  u_subdomain :: "string option"
  u_domain :: "string option"
  u_description :: "string option"
  u_contactEmail :: "string option"
  u_contactPhone :: "string option"
  u_website :: "string option"
  u_subscriptionTier :: "SubscriptionTier option"
  u_maxUsers :: "int option"
  u_maxProjects :: "int option"
  u_storageLimit :: "int option"
  u_status :: "TenantStatus option"
  u_isActive :: "bool option"
  u_logo :: "string option"
  u_settings :: "(string \<times> string) list option"
  u_features :: "string list option"

text \<open>
  The exceptions of the code, with their messages. \<open>QueryFailedError\<close> is what the
  database driver raises for a failed statement (a violated unique index, a failed
  DDL statement); \<open>ConnectionFailedError\<close> is a rejected \<^verbatim>\<open>connection.initialize()\<close>.
\<close>

datatype error =
    BadRequestException string
  | ForbiddenException string
  | NotFoundException string
  | ConflictException string
  | QueryFailedError
  | ConnectionFailedError

text \<open>
  A \<^verbatim>\<open>DataSource\<close> object is an address into \<open>dataSources\<close>; the cell holds its
  \<^verbatim>\<open>isInitialized\<close> flag. \<open>tenantConnections\<close> is the JS \<^verbatim>\<open>Map\<close> from schema name
  to \<^verbatim>\<open>DataSource\<close> (insertion ordered, one entry per key). \<open>initCount\<close> counts
  the physical connections established, that is the \<^verbatim>\<open>initialize()\<close> calls that
  resolved.
\<close>

record world =
  tenants :: "Tenant list"
  schemas :: "string list"
  dataSources :: "bool list"
  tenantConnections :: "(string \<times> nat) list"
  initCount :: nat

record request =
  headers :: "(string \<times> string) list"
  tenant :: "Tenant option"

section \<open>The tenant repository\<close>

text \<open>JavaScript truthiness of an optional string: undefined and \<^verbatim>\<open>""\<close> are falsy.\<close>

fun truthy :: "string option \<Rightarrow> bool" where
  "truthy None = False"
| "truthy (Some s) = (s \<noteq> [])"

text \<open>
  \<^verbatim>\<open>repository.findOne({ where })\<close>: the first row that satisfies the condition
  among the rows that are not tombstoned.
\<close>

definition findOneWhere :: "(Tenant \<Rightarrow> bool) \<Rightarrow> Tenant list \<Rightarrow> Tenant option" where
  "findOneWhere P rows = List.find (\<lambda>r. \<not> deleted r \<and> P r) rows"

text \<open>
  The unique indexes of the entity: \<^verbatim>\<open>subdomain\<close>, \<^verbatim>\<open>domain\<close> (NULLs do not clash
  with each other) and \<^verbatim>\<open>schemaName\<close>. They are plain indexes over the whole table,
  tombstoned rows included.
\<close>

definition clashes :: "Tenant \<Rightarrow> Tenant \<Rightarrow> bool" where
  "clashes t r \<longleftrightarrow>
     subdomain r = subdomain t
     \<or> (domain t \<noteq> None \<and> domain r = domain t)
     \<or> schemaName r = schemaName t"

definition violatesUnique :: "Tenant \<Rightarrow> Tenant list \<Rightarrow> bool" where
  "violatesUnique t rows = list_ex (\<lambda>r. id' r \<noteq> id' t \<and> clashes t r) rows"

text \<open>
  \<^verbatim>\<open>repository.save\<close> of an entity that has no id yet: an INSERT. The database
  generates the primary key; the generated value is the parameter \<open>newId\<close>, and a
  key that is already taken violates the primary-key constraint.
\<close>

definition saveNew :: "string \<Rightarrow> Tenant \<Rightarrow> Tenant list \<Rightarrow> error + (Tenant \<times> Tenant list)" where
  "saveNew newId t rows =
     (let t' = t\<lparr>id' := newId\<rparr> in
      if list_ex (\<lambda>r. id' r = newId) rows then Inl QueryFailedError
      else if violatesUnique t' rows then Inl QueryFailedError
      else Inr (t', rows @ [t']))"

text \<open>\<^verbatim>\<open>repository.save\<close> of an entity loaded from the table: an UPDATE of its row.\<close>

definition save :: "Tenant \<Rightarrow> Tenant list \<Rightarrow> error + (Tenant \<times> Tenant list)" where
  "save t rows =
     (if violatesUnique t rows then Inl QueryFailedError
      else Inr (t, map (\<lambda>r. if id' r = id' t then t else r) rows))"

text \<open>\<^verbatim>\<open>repository.delete(id)\<close>: a hard DELETE by primary key.\<close>

definition deleteById :: "string \<Rightarrow> Tenant list \<Rightarrow> Tenant list" where
  "deleteById i rows = filter (\<lambda>r. id' r \<noteq> i) rows"

text \<open>\<^verbatim>\<open>repository.softDelete(id)\<close>: tombstones the row unless it already is.\<close>

definition softDelete :: "string \<Rightarrow> Tenant list \<Rightarrow> Tenant list" where
  "softDelete i rows = map (\<lambda>r. if id' r = i \<and> \<not> deleted r then r\<lparr>deleted := True\<rparr> else r) rows"

section \<open>TenantsService lookups and the tenant guard\<close>

definition findOne :: "string \<Rightarrow> world \<Rightarrow> error + Tenant" where
  "findOne i w =
     (case findOneWhere (\<lambda>r. id' r = i) (tenants w) of
        None \<Rightarrow> Inl (NotFoundException (''Tenant with ID '' @ i @ '' not found''))
      | Some t \<Rightarrow> Inr t)"

text \<open>\<^verbatim>\<open>TenantService.findById\<close>: any failure of \<^verbatim>\<open>findOne\<close> becomes a fresh not-found.\<close>

definition findById :: "string \<Rightarrow> world \<Rightarrow> error + Tenant" where
  "findById i w =
     (case findOne i w of
        Inl e \<Rightarrow> Inl (NotFoundException (''Tenant with ID '' @ i @ '' not found''))
      | Inr t \<Rightarrow> Inr t)"

text \<open>The \<^verbatim>\<open>catch\<close> block of the guard: its own two exceptions pass, all others are replaced.\<close>

fun guardCatch :: "error \<Rightarrow> error" where
  "guardCatch (ForbiddenException m) = ForbiddenException m"
| "guardCatch (BadRequestException m) = BadRequestException m"
| "guardCatch e = ForbiddenException ''Tenant validation failed''"

text \<open>
  \<^verbatim>\<open>TenantGuard.canActivate\<close>. Success is the request with the tenant attached (the
  guard then returns true); a failure leaves the request as it was.
\<close>

definition canActivate :: "request \<Rightarrow> world \<Rightarrow> error + request" where
  "canActivate req w =
     (case map_of (headers req) ''x-tenant-id'' of
        None \<Rightarrow> Inl (BadRequestException ''Tenant ID is required'')
      | Some tenantId \<Rightarrow>
          if tenantId = [] then Inl (BadRequestException ''Tenant ID is required'')
          else
            (case findById tenantId w of
               Inl e \<Rightarrow> Inl (guardCatch e)
             | Inr t \<Rightarrow>
                 if \<not> isActive t
                 then Inl (guardCatch (ForbiddenException ''Invalid or inactive tenant''))
                 else Inr (req\<lparr>tenant := Some t\<rparr>)))"

text \<open>\<^verbatim>\<open>getActiveTenants\<close>: the service's own query for the tenants in service.\<close>

definition getActiveTenants :: "world \<Rightarrow> Tenant list" where
  "getActiveTenants w =
     filter (\<lambda>r. \<not> deleted r \<and> isActive r \<and> status r = ACTIVE) (tenants w)"

definition checkSubdomainAvailability :: "string \<Rightarrow> world \<Rightarrow> bool" where
  "checkSubdomainAvailability sd w = (findOneWhere (\<lambda>r. subdomain r = sd) (tenants w) = None)"

section \<open>TenantConnectionService\<close>

text \<open>\<^verbatim>\<open>connection.isInitialized\<close> of the object at address \<open>h\<close>.\<close>

definition isInitialized :: "world \<Rightarrow> nat \<Rightarrow> bool" where
  "isInitialized w h \<longleftrightarrow> h < length (dataSources w) \<and> dataSources w ! h"

text \<open>\<^verbatim>\<open>connection.destroy()\<close>: closes the connection; the object stays where it is.\<close>

definition destroy :: "nat \<Rightarrow> world \<Rightarrow> world" where
  "destroy h w = w\<lparr>dataSources := (dataSources w)[h := False]\<rparr>"

text \<open>
  \<^verbatim>\<open>getTenantConnection\<close> is an async function with one \<^verbatim>\<open>await\<close>. The event loop
  runs it in two uninterrupted pieces, and other calls may run between them.

  The first piece, up to the \<^verbatim>\<open>await\<close>: a cached entry is returned at once
  (\<open>Returned\<close>); otherwise a new \<^verbatim>\<open>DataSource\<close> object is built, its
  \<^verbatim>\<open>initialize()\<close> is started and the call is suspended (\<open>Awaiting\<close>). Nothing is
  written to the map yet.
\<close>

datatype pending = Returned nat | Awaiting nat

definition getTenantConnection_enter :: "string \<Rightarrow> world \<Rightarrow> pending \<times> world" where
  "getTenantConnection_enter tenantSchema w =
     (case map_of (tenantConnections w) tenantSchema of
        Some h \<Rightarrow> (Returned h, w)
      | None \<Rightarrow>
          (Awaiting (length (dataSources w)), w\<lparr>dataSources := dataSources w @ [False]\<rparr>))"

text \<open>
  The second piece, when \<^verbatim>\<open>initialize()\<close> has settled (\<open>ok\<close> tells how): on success
  the connection is live and counted, the map entry is set and the handle returned;
  on failure the rejection leaves the function before the \<^verbatim>\<open>set\<close>.
\<close>

definition getTenantConnection_resume :: "bool \<Rightarrow> string \<Rightarrow> nat \<Rightarrow> world \<Rightarrow> (error + nat) \<times> world" where
  "getTenantConnection_resume ok tenantSchema h w =
     (if ok then
        (Inr h, w\<lparr>dataSources := (dataSources w)[h := True],
                  initCount := Suc (initCount w),
                  tenantConnections := AList.update tenantSchema h (tenantConnections w)\<rparr>)
      else (Inl ConnectionFailedError, w))"

fun settle :: "pending \<Rightarrow> bool \<Rightarrow> string \<Rightarrow> world \<Rightarrow> (error + nat) \<times> world" where
  "settle (Returned h) ok tenantSchema w = (Inr h, w)"
| "settle (Awaiting h) ok tenantSchema w = getTenantConnection_resume ok tenantSchema h w"

text \<open>One call running alone, from start to end.\<close>

definition getTenantConnection :: "bool \<Rightarrow> string \<Rightarrow> world \<Rightarrow> (error + nat) \<times> world" where
  "getTenantConnection ok tenantSchema w =
     (case getTenantConnection_enter tenantSchema w of
        (p, w') \<Rightarrow> settle p ok tenantSchema w')"

text \<open>
  Two calls A and B for the same schema that overlap: B starts while A is suspended
  at its \<^verbatim>\<open>await\<close>. The initializations then settle in either order (\<open>aFirst\<close>).
  The result is A's outcome, B's outcome and the final state.
\<close>

definition twoOverlappingGets ::
  "bool \<Rightarrow> bool \<Rightarrow> bool \<Rightarrow> string \<Rightarrow> world \<Rightarrow> (error + nat) \<times> (error + nat) \<times> world" where
  "twoOverlappingGets aFirst okA okB tenantSchema w =
     (case getTenantConnection_enter tenantSchema w of (pa, w1) \<Rightarrow>
      case getTenantConnection_enter tenantSchema w1 of (pb, w2) \<Rightarrow>
        if aFirst then
          (case settle pa okA tenantSchema w2 of (ra, w3) \<Rightarrow>
           case settle pb okB tenantSchema w3 of (rb, w4) \<Rightarrow> (ra, rb, w4))
        else
          (case settle pb okB tenantSchema w2 of (rb, w3) \<Rightarrow>
           case settle pa okA tenantSchema w3 of (ra, w4) \<Rightarrow> (ra, rb, w4)))"

text \<open>
  \<^verbatim>\<open>createTenantSchema\<close>: \<^verbatim>\<open>CREATE SCHEMA IF NOT EXISTS\<close>; \<open>ok\<close> tells whether the
  query runner connected and the statement succeeded. The error is rethrown.
\<close>

definition createTenantSchema :: "bool \<Rightarrow> string \<Rightarrow> world \<Rightarrow> (error + unit) \<times> world" where
  "createTenantSchema ok tenantSchema w =
     (if ok then (Inr (), w\<lparr>schemas := List.insert tenantSchema (schemas w)\<rparr>)
      else (Inl QueryFailedError, w))"

text \<open>
  \<^verbatim>\<open>dropTenantSchema\<close>: \<^verbatim>\<open>DROP SCHEMA IF EXISTS ... CASCADE\<close>, then
  \<^verbatim>\<open>this.tenantConnections.delete(tenantSchema)\<close>. No \<^verbatim>\<open>destroy()\<close> is called.
\<close>

definition dropTenantSchema :: "bool \<Rightarrow> string \<Rightarrow> world \<Rightarrow> (error + unit) \<times> world" where
  "dropTenantSchema ok tenantSchema w =
     (if ok then
        (Inr (), w\<lparr>schemas := removeAll tenantSchema (schemas w),
                   tenantConnections := AList.delete tenantSchema (tenantConnections w)\<rparr>)
      else (Inl QueryFailedError, w))"

definition closeTenantConnection :: "string \<Rightarrow> world \<Rightarrow> world" where
  "closeTenantConnection tenantSchema w =
     (case map_of (tenantConnections w) tenantSchema of
        None \<Rightarrow> w
      | Some h \<Rightarrow>
          if isInitialized w h then
            (destroy h w)\<lparr>tenantConnections := AList.delete tenantSchema (tenantConnections w)\<rparr>
          else w)"

section \<open>TenantsService: create, update, remove, suspend, activate\<close>

text \<open>
  \<^verbatim>\<open>repository.create({ ...createTenantDto, schemaName, status })\<close> and the column
  defaults the INSERT fills in.
\<close>

definition newTenant :: "CreateTenantDto \<Rightarrow> string \<Rightarrow> Tenant" where
  "newTenant dto sn =
     \<lparr> id' = [], deleted = False,
       name = c_name dto, subdomain = c_subdomain dto, domain = c_domain dto,
       schemaName = sn, status = PENDING,
       subscriptionTier = (case c_subscriptionTier dto of None \<Rightarrow> FREE | Some x \<Rightarrow> x),
       isActive = True,
       description = c_description dto, logo = None, website = c_website dto,
       contactEmail = c_contactEmail dto, contactPhone = c_contactPhone dto,
       settings = None, features = None,
       maxUsers = (case c_maxUsers dto of None \<Rightarrow> 5 | Some x \<Rightarrow> x),
       maxProjects = (case c_maxProjects dto of None \<Rightarrow> 10 | Some x \<Rightarrow> x),
       storageLimit = (case c_storageLimit dto of None \<Rightarrow> 1073741824 | Some x \<Rightarrow> x),
       storageUsed = 0 \<rparr>"

text \<open>
  The first half of \<^verbatim>\<open>create\<close>: the duplicate check, the schema name, and the
  INSERT of the record in \<open>PENDING\<close>. The \<^verbatim>\<open>where\<close> array holds the domain
  condition only when \<^verbatim>\<open>createTenantDto.domain\<close> is truthy. A row that was found
  but matches neither test falls through, as in the source. (The domain test is reached
  only with a row the domain condition selected, so \<^verbatim>\<open>null === undefined\<close> never
  decides it.)
\<close>

definition createInsert :: "string \<Rightarrow> CreateTenantDto \<Rightarrow> world \<Rightarrow> (error + Tenant) \<times> world" where
  "createInsert newId dto w =
     (let existingTenant =
            findOneWhere (\<lambda>r. subdomain r = c_subdomain dto
                              \<or> (truthy (c_domain dto) \<and> domain r = c_domain dto)) (tenants w);
          schemaName = ''tenant_'' @ c_subdomain dto
      in
        if existingTenant \<noteq> None \<and> subdomain (the existingTenant) = c_subdomain dto
        then (Inl (ConflictException ''Subdomain already exists''), w)
        else if existingTenant \<noteq> None \<and> domain (the existingTenant) = c_domain dto
        then (Inl (ConflictException ''Domain already exists''), w)
        else
          (case saveNew newId (newTenant dto schemaName) (tenants w) of
             Inl e \<Rightarrow> (Inl e, w)
           | Inr (savedTenant, rows) \<Rightarrow> (Inr savedTenant, w\<lparr>tenants := rows\<rparr>)))"

text \<open>
  The second half: the \<^verbatim>\<open>try\<close> block. When the DDL succeeds the record is flipped
  to \<open>ACTIVE\<close> and saved; the promise of that save is returned without \<^verbatim>\<open>await\<close>,
  so its rejection is not caught. When the DDL fails the \<^verbatim>\<open>catch\<close> block awaits
  \<^verbatim>\<open>tenantRepository.delete(savedTenant.id)\<close> and then throws the
  \<^verbatim>\<open>BadRequestException\<close>. The delete has no handler of its own: when it is rejected
  (\<open>delOk\<close> tells whether the DELETE statement succeeded) its error leaves
  \<^verbatim>\<open>create\<close> in place of the \<^verbatim>\<open>BadRequestException\<close> and the record stays.
\<close>

definition createProvision ::
  "bool \<Rightarrow> bool \<Rightarrow> Tenant \<Rightarrow> world \<Rightarrow> (error + Tenant) \<times> world" where
  "createProvision ddlOk delOk savedTenant w =
     (case createTenantSchema ddlOk (schemaName savedTenant) w of
        (Inr u, w') \<Rightarrow>
          (case save (savedTenant\<lparr>status := ACTIVE\<rparr>) (tenants w') of
             Inl e \<Rightarrow> (Inl e, w')
           | Inr (t, rows) \<Rightarrow> (Inr t, w'\<lparr>tenants := rows\<rparr>))
      | (Inl e, w') \<Rightarrow>
          if delOk then
            (Inl (BadRequestException ''Failed to create tenant database schema''),
             w'\<lparr>tenants := deleteById (id' savedTenant) (tenants w')\<rparr>)
          else (Inl QueryFailedError, w'))"

definition create ::
  "string \<Rightarrow> bool \<Rightarrow> bool \<Rightarrow> CreateTenantDto \<Rightarrow> world \<Rightarrow> (error + Tenant) \<times> world" where
  "create newId ddlOk delOk dto w =
     (case createInsert newId dto w of
        (Inl e, w') \<Rightarrow> (Inl e, w')
      | (Inr savedTenant, w') \<Rightarrow> createProvision ddlOk delOk savedTenant w')"

text \<open>\<^verbatim>\<open>Object.assign(tenant, updateTenantDto)\<close>: every field the DTO carries is copied.\<close>

definition assign :: "Tenant \<Rightarrow> UpdateTenantDto \<Rightarrow> Tenant" where
  "assign t dto =
     t\<lparr> name := (case u_name dto of None \<Rightarrow> name t | Some x \<Rightarrow> x),
        subdomain := (case u_subdomain dto of None \<Rightarrow> subdomain t | Some x \<Rightarrow> x),
        domain := (case u_domain dto of None \<Rightarrow> domain t | Some x \<Rightarrow> Some x),
        description := (case u_description dto of None \<Rightarrow> description t | Some x \<Rightarrow> Some x),
        contactEmail := (case u_contactEmail dto of None \<Rightarrow> contactEmail t | Some x \<Rightarrow> Some x),
        contactPhone := (case u_contactPhone dto of None \<Rightarrow> contactPhone t | Some x \<Rightarrow> Some x),
        website := (case u_website dto of None \<Rightarrow> website t | Some x \<Rightarrow> Some x),
        subscriptionTier :=
          (case u_subscriptionTier dto of None \<Rightarrow> subscriptionTier t | Some x \<Rightarrow> x),
        maxUsers := (case u_maxUsers dto of None \<Rightarrow> maxUsers t | Some x \<Rightarrow> x),
        maxProjects := (case u_maxProjects dto of None \<Rightarrow> maxProjects t | Some x \<Rightarrow> x),
        storageLimit := (case u_storageLimit dto of None \<Rightarrow> storageLimit t | Some x \<Rightarrow> x),
        status := (case u_status dto of None \<Rightarrow> status t | Some x \<Rightarrow> x),
        isActive := (case u_isActive dto of None \<Rightarrow> isActive t | Some x \<Rightarrow> x),
        logo := (case u_logo dto of None \<Rightarrow> logo t | Some x \<Rightarrow> Some x),
        settings := (case u_settings dto of None \<Rightarrow> settings t | Some x \<Rightarrow> Some x),
        features := (case u_features dto of None \<Rightarrow> features t | Some x \<Rightarrow> Some x) \<rparr>"

text \<open>
  The conflict test of \<^verbatim>\<open>update\<close>: \<^verbatim>\<open>conflictWhere\<close> collects a subdomain condition
  and a domain condition, each only for a truthy value that differs from the
  tenant's; the lookup runs when one was collected.
\<close>

definition updateConflict :: "string \<Rightarrow> Tenant \<Rightarrow> UpdateTenantDto \<Rightarrow> world \<Rightarrow> bool" where
  "updateConflict i t dto w =
     (let bySub = truthy (u_subdomain dto) \<and> u_subdomain dto \<noteq> Some (subdomain t);
          byDom = truthy (u_domain dto) \<and> u_domain dto \<noteq> domain t
      in (truthy (u_subdomain dto) \<or> truthy (u_domain dto)) \<and> (bySub \<or> byDom) \<and>
         (case findOneWhere (\<lambda>r. (bySub \<and> Some (subdomain r) = u_subdomain dto)
                                  \<or> (byDom \<and> domain r = u_domain dto)) (tenants w) of
            None \<Rightarrow> False
          | Some existingTenant \<Rightarrow> id' existingTenant \<noteq> i))"

definition saveTenant :: "Tenant \<Rightarrow> world \<Rightarrow> (error + Tenant) \<times> world" where
  "saveTenant t w =
     (case save t (tenants w) of
        Inl e \<Rightarrow> (Inl e, w)
      | Inr (t', rows) \<Rightarrow> (Inr t', w\<lparr>tenants := rows\<rparr>))"

definition update :: "string \<Rightarrow> UpdateTenantDto \<Rightarrow> world \<Rightarrow> (error + Tenant) \<times> world" where
  "update i dto w =
     (case findOne i w of
        Inl e \<Rightarrow> (Inl e, w)
      | Inr t \<Rightarrow>
          if updateConflict i t dto w
          then (Inl (ConflictException ''Subdomain or domain already exists''), w)
          else saveTenant (assign t dto) w)"

text \<open>
  \<^verbatim>\<open>remove\<close>: the schema drop and the soft delete share one \<^verbatim>\<open>try\<close>; whatever is
  thrown inside becomes a \<^verbatim>\<open>BadRequestException\<close>. \<^verbatim>\<open>findOne\<close> is outside it.
\<close>

definition remove :: "string \<Rightarrow> bool \<Rightarrow> world \<Rightarrow> (error + unit) \<times> world" where
  "remove i ddlOk w =
     (case findOne i w of
        Inl e \<Rightarrow> (Inl e, w)
      | Inr t \<Rightarrow>
          (case dropTenantSchema ddlOk (schemaName t) w of
             (Inl e, w') \<Rightarrow> (Inl (BadRequestException ''Failed to remove tenant and its data''), w')
           | (Inr u, w') \<Rightarrow> (Inr (), w'\<lparr>tenants := softDelete i (tenants w')\<rparr>)))"

definition suspend :: "string \<Rightarrow> world \<Rightarrow> (error + Tenant) \<times> world" where
  "suspend i w =
     (case findOne i w of
        Inl e \<Rightarrow> (Inl e, w)
      | Inr t \<Rightarrow> saveTenant (t\<lparr>status := SUSPENDED, isActive := False\<rparr>) w)"

definition activate :: "string \<Rightarrow> world \<Rightarrow> (error + Tenant) \<times> world" where
  "activate i w =
     (case findOne i w of
        Inl e \<Rightarrow> (Inl e, w)
      | Inr t \<Rightarrow> saveTenant (t\<lparr>status := ACTIVE, isActive := True\<rparr>) w)"

text \<open>The directory's write operations on an existing tenant.\<close>

datatype writeOp = Update UpdateTenantDto | Suspend | Activate

fun applyWrite :: "writeOp \<Rightarrow> string \<Rightarrow> world \<Rightarrow> (error + Tenant) \<times> world" where
  "applyWrite (Update dto) i w = update i dto w"
| "applyWrite Suspend i w = suspend i w"
| "applyWrite Activate i w = activate i w"

section \<open>Example data\<close>

definition emptyWorld :: world where
  "emptyWorld = \<lparr> tenants = [], schemas = [], dataSources = [], tenantConnections = [], initCount = 0 \<rparr>"

definition acmeDto :: CreateTenantDto where
  "acmeDto = \<lparr> c_name = ''Acme Corporation'', c_subdomain = ''acme'', c_domain = Some ''acme.com'',
     c_description = None, c_contactEmail = None, c_contactPhone = None, c_website = None,
     c_subscriptionTier = None, c_maxUsers = None, c_maxProjects = None, c_storageLimit = None \<rparr>"

definition acmeTenant :: Tenant where
  "acmeTenant = \<lparr> id' = ''t1'', deleted = False, name = ''Acme Corporation'', subdomain = ''acme'',
     domain = Some ''acme.com'', schemaName = ''tenant_acme'', status = ACTIVE,
     subscriptionTier = FREE, isActive = True, description = None, logo = None, website = None,
     contactEmail = None, contactPhone = None, settings = None, features = None,
     maxUsers = 5, maxProjects = 10, storageLimit = 1073741824, storageUsed = 0 \<rparr>"

definition acmeWorld :: world where
  "acmeWorld = \<lparr> tenants = [acmeTenant], schemas = [''tenant_acme''], dataSources = [True],
     tenantConnections = [(''tenant_acme'', 0)], initCount = 1 \<rparr>"

definition emptyUpdate :: UpdateTenantDto where
  "emptyUpdate = \<lparr> u_name = None, u_subdomain = None, u_domain = None, u_description = None,
     u_contactEmail = None, u_contactPhone = None, u_website = None, u_subscriptionTier = None,
     u_maxUsers = None, u_maxProjects = None, u_storageLimit = None, u_status = None,
     u_isActive = None, u_logo = None, u_settings = None, u_features = None \<rparr>"

definition acmeRequest :: request where
  "acmeRequest = \<lparr> headers = [(''x-tenant-id'', ''t1'')], tenant = None \<rparr>"

definition globexDto :: CreateTenantDto where
  "globexDto = acmeDto\<lparr> c_name := ''Globex'', c_subdomain := ''globex'', c_domain := None \<rparr>"

definition blankDomainDto :: "string \<Rightarrow> CreateTenantDto" where
  "blankDomainDto sd = acmeDto\<lparr> c_name := sd, c_subdomain := sd, c_domain := Some [] \<rparr>"

definition alphaTenant :: Tenant where
  "alphaTenant = acmeTenant\<lparr> name := ''alpha'', subdomain := ''alpha'', domain := Some [],
                             schemaName := ''tenant_alpha'' \<rparr>"

definition blankDomainWorld :: world where
  "blankDomainWorld = emptyWorld\<lparr> tenants := [alphaTenant], schemas := [''tenant_alpha''] \<rparr>"

section \<open>Facts about the repository\<close>

lemma findOneWhere_Some:
  "findOneWhere P rows = Some t \<Longrightarrow> t \<in> set rows \<and> \<not> deleted t \<and> P t"
  by (auto simp: findOneWhere_def find_Some_iff)

lemma findOneWhere_None:
  "findOneWhere P rows = None \<longleftrightarrow> (\<forall>r\<in>set rows. deleted r \<or> \<not> P r)"
  by (auto simp: findOneWhere_def find_None_iff)

lemma findOne_Inr:
  "findOne i w = Inr t \<Longrightarrow> t \<in> set (tenants w) \<and> \<not> deleted t \<and> id' t = i"
  by (auto simp: findOne_def split: option.splits dest: findOneWhere_Some)

lemma saveNew_Inr:
  assumes "saveNew newId t rows = Inr (t', rows')"
  shows "t' = t\<lparr>id' := newId\<rparr>" and "rows' = rows @ [t']"
    and "\<forall>r\<in>set rows. id' r \<noteq> newId"
    and "\<forall>r\<in>set rows. \<not> clashes t' r"
  using assms
  by (auto simp: saveNew_def Let_def violatesUnique_def list_ex_iff split: if_splits)

lemma deleteById_fresh:
  "\<forall>r\<in>set rows. id' r \<noteq> i \<Longrightarrow> deleteById i (rows @ [t\<lparr>id' := i\<rparr>]) = rows"
  by (induction rows) (auto simp: deleteById_def)

lemma createInsert_Inr:
  assumes "createInsert newId dto w = (Inr savedTenant, w1)"
  shows "savedTenant = (newTenant dto (''tenant_'' @ c_subdomain dto))\<lparr>id' := newId\<rparr>"
    and "w1 = w\<lparr>tenants := tenants w @ [savedTenant]\<rparr>"
    and "\<forall>r\<in>set (tenants w). id' r \<noteq> newId"
    and "\<forall>r\<in>set (tenants w). \<not> clashes savedTenant r"
  using assms
  by (auto simp: createInsert_def Let_def split: if_splits sum.splits dest: saveNew_Inr)

lemma save_Inr:
  assumes "save t rows = Inr (t', rows')"
  shows "t' = t" and "rows' = map (\<lambda>r. if id' r = id' t then t else r) rows"
  using assms by (auto simp: save_def split: if_splits)

lemma saveTenant_Inr:
  assumes "saveTenant t w = (Inr t', w')"
  shows "t' = t" and "tenants w' = map (\<lambda>r. if id' r = id' t then t else r) (tenants w)"
  using assms by (auto simp: saveTenant_def split: sum.splits dest: save_Inr)

lemma saveTenant_Inl: "saveTenant t w = (Inl e, w') \<Longrightarrow> w' = w"
  by (auto simp: saveTenant_def split: sum.splits)

lemma save_keeps_keys:
  assumes d: "distinct (map id' rows)" and t: "t \<in> set rows"
    and s: "schemaName u = schemaName t" and i: "id' u = id' t"
  shows "map (\<lambda>r. (id' r, schemaName r)) (map (\<lambda>r. if id' r = id' u then u else r) rows)
       = map (\<lambda>r. (id' r, schemaName r)) rows"
proof -
  have "\<And>r. r \<in> set rows \<Longrightarrow> id' r = id' t \<Longrightarrow> r = t"
    using d t by (meson distinct_map inj_onD)
  then show ?thesis using s i by (auto simp: )
qed

lemma schemaName_assign: "schemaName (assign t dto) = schemaName t" "id' (assign t dto) = id' t"
  by (simp_all add: assign_def)

lemma map_of_delete_same: "map_of (AList.delete k al) k = None"
  by (simp add: AList.delete_conv')

lemma enter_absent:
  "map_of (tenantConnections w) s = None \<Longrightarrow>
   getTenantConnection_enter s w =
     (Awaiting (length (dataSources w)), w\<lparr>dataSources := dataSources w @ [False]\<rparr>)"
  by (simp add: getTenantConnection_enter_def)

lemma enter_cached:
  "map_of (tenantConnections w) s = Some h \<Longrightarrow> getTenantConnection_enter s w = (Returned h, w)"
  by (simp add: getTenantConnection_enter_def)

lemma delete_unreferenced:
  assumes "distinct (map snd al)" and "map_of al k = Some h"
  shows "h \<notin> snd ` set (AList.delete k al)"
proof
  assume "h \<in> snd ` set (AList.delete k al)"
  then obtain k' where k': "(k', h) \<in> set al" "k' \<noteq> k"
    by (auto simp: AList.delete_eq)
  from assms(2) have "(k, h) \<in> set al" by (rule map_of_SomeD)
  with k' assms(1) show False
    by (metis distinct_map inj_onD snd_conv fst_conv)
qed

text \<open>
  The primary key stays unique under every operation that writes the table, so the
  uniqueness assumed of it below holds in every state the services can reach from the
  empty table.
\<close>

lemma map_id_save:
  "id' u = k \<Longrightarrow> map (id' \<circ> (\<lambda>r. if id' r = k then u else r)) rows = map id' rows"
  by (induction rows) auto

lemma saveTenant_primary_key:
  "distinct (map id' (tenants w)) \<Longrightarrow> distinct (map id' (tenants (snd (saveTenant t w))))"
  by (auto simp: saveTenant_def save_def map_id_save split: sum.splits if_splits)

lemma applyWrite_primary_key:
  "distinct (map id' (tenants w)) \<Longrightarrow> distinct (map id' (tenants (snd (applyWrite op i w))))"
  by (cases op)
    (auto simp: update_def suspend_def activate_def split: sum.splits dest: saveTenant_primary_key)

lemma create_primary_key:
  assumes "distinct (map id' (tenants w))"
  shows "distinct (map id' (tenants (snd (create newId ddlOk delOk dto w))))"
proof (cases "createInsert newId dto w")
  case (Pair r w1)
  show ?thesis
  proof (cases r)
    case (Inl e)
    with Pair have "w1 = w"
      by (auto simp: createInsert_def Let_def split: if_splits sum.splits)
    with Pair Inl assms show ?thesis by (simp add: create_def)
  next
    case (Inr t0)
    note I = createInsert_Inr [OF Pair [unfolded Inr]]
    have d1: "distinct (map id' (tenants w1))"
      using assms I(3) by (auto simp: I(1,2))
    then have "distinct (map id' (tenants (snd (createProvision ddlOk delOk t0 w1))))"
      by (auto simp: createProvision_def createTenantSchema_def save_def map_id_save
          deleteById_def distinct_map_filter split: sum.splits if_splits)
    with Pair Inr show ?thesis by (simp add: create_def)
  qed
qed

lemma remove_primary_key:
  "distinct (map id' (tenants w)) \<Longrightarrow> distinct (map id' (tenants (snd (remove i ddlOk w))))"
proof -
  have "map id' (softDelete i rows) = map id' rows" for rows
    by (induction rows) (auto simp: softDelete_def)
  then show "distinct (map id' (tenants w)) \<Longrightarrow> ?thesis"
    by (auto simp: remove_def dropTenantSchema_def split: sum.splits)
qed

section \<open>The tenant guard\<close>

text \<open>
  What the guard does decide on: a missing tenant is refused, a tenant whose
  \<open>isActive\<close> flag is off is refused, and an admitted request carries a live
  tenant whose flag is on.
\<close>

lemma canActivate_rejects_inactive:
  assumes "map_of (headers req) ''x-tenant-id'' = Some i" and "i \<noteq> []"
    and "findOne i w = Inr t" and "\<not> isActive t"
  shows "canActivate req w = Inl (ForbiddenException ''Invalid or inactive tenant'')"
  using assms by (simp add: canActivate_def findById_def)

lemma canActivate_rejects_unknown:
  assumes "map_of (headers req) ''x-tenant-id'' = Some i" and "i \<noteq> []"
    and "findOne i w = Inl e"
  shows "canActivate req w = Inl (ForbiddenException ''Tenant validation failed'')"
  using assms by (simp add: canActivate_def findById_def)

lemma canActivate_Inr:
  assumes "canActivate req w = Inr req'"
  shows "\<exists>t. req' = req\<lparr>tenant := Some t\<rparr> \<and> isActive t \<and> \<not> deleted t \<and> t \<in> set (tenants w)"
  using assms
  by (auto simp: canActivate_def findById_def split: option.splits if_splits sum.splits
      dest: findOne_Inr)

text \<open>
  Claim C1: a request whose tenant id resolves to a record that is not usable
  (\<open>status \<noteq> ACTIVE\<close> or \<open>isActive = False\<close>) is refused with an authorization
  error and gets no tenant context. The guard tests \<open>isActive\<close> alone. An update
  that sets only \<open>status\<close> to \<open>SUSPENDED\<close> leaves the flag on; the guard then
  admits the request and attaches the suspended tenant, while \<open>getActiveTenants\<close>,
  which tests both fields, no longer lists it.
\<close>

theorem guard_admits_suspended_status:
  "update ''t1'' (emptyUpdate\<lparr>u_status := Some SUSPENDED\<rparr>) acmeWorld =
     (Inr (acmeTenant\<lparr>status := SUSPENDED\<rparr>),
      acmeWorld\<lparr>tenants := [acmeTenant\<lparr>status := SUSPENDED\<rparr>]\<rparr>)
   \<and> canActivate acmeRequest (acmeWorld\<lparr>tenants := [acmeTenant\<lparr>status := SUSPENDED\<rparr>]\<rparr>) =
       Inr (acmeRequest\<lparr>tenant := Some (acmeTenant\<lparr>status := SUSPENDED\<rparr>)\<rparr>)
   \<and> getActiveTenants (acmeWorld\<lparr>tenants := [acmeTenant\<lparr>status := SUSPENDED\<rparr>]\<rparr>) = []"
  by (simp add: update_def findOne_def findOneWhere_def updateConflict_def saveTenant_def save_def
      violatesUnique_def assign_def canActivate_def findById_def getActiveTenants_def
      emptyUpdate_def acmeWorld_def acmeTenant_def acmeRequest_def)

section \<open>Provisioning: create\<close>

text \<open>
  A draft whose subdomain, or whose non-empty domain, is held by a tenant that is not
  tombstoned is refused with a \<open>ConflictException\<close>, and nothing is written.
\<close>

lemma create_conflict_live_duplicate:
  assumes x: "x \<in> set (tenants w)" "\<not> deleted x"
    and dup: "subdomain x = c_subdomain dto \<or> (truthy (c_domain dto) \<and> domain x = c_domain dto)"
  shows "\<exists>m. create newId ddlOk delOk dto w = (Inl (ConflictException m), w)"
proof -
  let ?P = "\<lambda>r. subdomain r = c_subdomain dto \<or> (truthy (c_domain dto) \<and> domain r = c_domain dto)"
  have "findOneWhere ?P (tenants w) \<noteq> None"
    using x dup by (auto simp: findOneWhere_None)
  then obtain ex where ex: "findOneWhere ?P (tenants w) = Some ex" by auto
  from findOneWhere_Some [OF ex]
  have "subdomain ex = c_subdomain dto \<or> domain ex = c_domain dto" by auto
  then have "\<exists>m. createInsert newId dto w = (Inl (ConflictException m), w)"
    by (cases "subdomain ex = c_subdomain dto") (simp_all add: createInsert_def ex Let_def)
  then show ?thesis by (auto simp: create_def)
qed

text \<open>
  Claim C5: when a tenant with the same subdomain or the same domain already exists,
  \<open>create\<close> fails with a conflict error and leaves no new record or schema. The
  domain condition enters the duplicate check only for a truthy domain, so two drafts
  with the domain \<^verbatim>\<open>""\<close> pass the check; the second INSERT then breaks the unique
  index on \<open>domain\<close> and \<open>create\<close> ends with the driver's \<open>QueryFailedError\<close>,
  not with a \<open>ConflictException\<close>. Nothing is written in that case either.
\<close>

theorem create_duplicate_blank_domain:
  "create ''t1'' True True (blankDomainDto ''alpha'') emptyWorld = (Inr alphaTenant, blankDomainWorld)
   \<and> domain alphaTenant = c_domain (blankDomainDto ''beta'')
   \<and> create ''t2'' True True (blankDomainDto ''beta'') blankDomainWorld =
       (Inl QueryFailedError, blankDomainWorld)"
  by (simp add: create_def createInsert_def createProvision_def createTenantSchema_def
      saveNew_def save_def violatesUnique_def clashes_def findOneWhere_def newTenant_def
      blankDomainDto_def blankDomainWorld_def alphaTenant_def acmeDto_def acmeTenant_def
      emptyWorld_def Let_def)

text \<open>
  The same happens for the subdomain of a removed tenant: the tombstoned row is
  invisible to the duplicate check and still held by the unique index.
\<close>

lemma create_after_remove_same_subdomain:
  "remove ''t1'' True acmeWorld =
     (Inr (), acmeWorld\<lparr>tenants := [acmeTenant\<lparr>deleted := True\<rparr>], schemas := [],
                        tenantConnections := []\<rparr>)
   \<and> create ''t2'' True True acmeDto
        (acmeWorld\<lparr>tenants := [acmeTenant\<lparr>deleted := True\<rparr>], schemas := [],
                   tenantConnections := []\<rparr>) =
       (Inl QueryFailedError,
        acmeWorld\<lparr>tenants := [acmeTenant\<lparr>deleted := True\<rparr>], schemas := [],
                  tenantConnections := []\<rparr>)"
  by (simp add: remove_def findOne_def findOneWhere_def dropTenantSchema_def softDelete_def
      create_def createInsert_def saveNew_def violatesUnique_def clashes_def newTenant_def
      acmeDto_def acmeWorld_def acmeTenant_def AList.delete_eq Let_def)

text \<open>
  Claim C3, as stated: whenever the record has been inserted in \<open>PENDING\<close> and the
  schema DDL then fails, \<open>create\<close> deletes that record and throws the provisioning
  error, so no record with the subdomain persists. With the compensating DELETE itself
  rejected, \<open>create\<close> ends with the driver's error, the \<open>PENDING\<close> record is still
  in the table and its subdomain is not available.
\<close>

theorem create_delete_rejected_counterexample:
  "createInsert ''t2'' globexDto acmeWorld =
     (Inr ((newTenant globexDto ''tenant_globex'')\<lparr>id' := ''t2''\<rparr>),
      acmeWorld\<lparr>tenants := [acmeTenant, (newTenant globexDto ''tenant_globex'')\<lparr>id' := ''t2''\<rparr>]\<rparr>)
   \<and> create ''t2'' False False globexDto acmeWorld =
       (Inl QueryFailedError,
        acmeWorld\<lparr>tenants := [acmeTenant, (newTenant globexDto ''tenant_globex'')\<lparr>id' := ''t2''\<rparr>]\<rparr>)
   \<and> status ((newTenant globexDto ''tenant_globex'')\<lparr>id' := ''t2''\<rparr>) = PENDING
   \<and> subdomain ((newTenant globexDto ''tenant_globex'')\<lparr>id' := ''t2''\<rparr>) = ''globex''
   \<and> \<not> checkSubdomainAvailability ''globex''
        (acmeWorld\<lparr>tenants := [acmeTenant, (newTenant globexDto ''tenant_globex'')\<lparr>id' := ''t2''\<rparr>]\<rparr>)"
  by (simp add: create_def createInsert_def createProvision_def createTenantSchema_def
      saveNew_def violatesUnique_def clashes_def findOneWhere_def checkSubdomainAvailability_def
      newTenant_def globexDto_def acmeDto_def acmeTenant_def acmeWorld_def Let_def)

text \<open>
  Claim C3, amended: when the record has been inserted in \<open>PENDING\<close>, the schema DDL
  then fails and the compensating DELETE succeeds, \<open>create\<close> throws the provisioning
  error (\<open>BadRequestException\<close>); the state is the one before the call, no record
  holds the subdomain, and the subdomain is available again.
\<close>

theorem create_ddl_failure_compensates:
  assumes ins: "createInsert newId dto w = (Inr savedTenant, w1)"
    and cr: "create newId False True dto w = (r, w')"
  shows "r = Inl (BadRequestException ''Failed to create tenant database schema'')
    \<and> w' = w
    \<and> (\<forall>x\<in>set (tenants w'). subdomain x \<noteq> c_subdomain dto)
    \<and> checkSubdomainAvailability (c_subdomain dto) w'
    \<and> status savedTenant = PENDING \<and> subdomain savedTenant = c_subdomain dto
    \<and> savedTenant \<in> set (tenants w1)"
proof -
  note I = createInsert_Inr [OF ins]
  have st: "status savedTenant = PENDING" "subdomain savedTenant = c_subdomain dto"
    "id' savedTenant = newId"
    by (simp_all add: I(1) newTenant_def)
  have del: "deleteById newId (tenants w @ [savedTenant]) = tenants w"
    using deleteById_fresh [OF I(3)] I(1) by simp
  have "create newId False True dto w =
      (Inl (BadRequestException ''Failed to create tenant database schema''), w)"
    using del by (simp add: create_def ins createProvision_def createTenantSchema_def I(2) st)
  with cr have r: "r = Inl (BadRequestException ''Failed to create tenant database schema'')"
    and w: "w' = w" by simp_all
  have nosub: "\<forall>x\<in>set (tenants w). subdomain x \<noteq> c_subdomain dto"
    using I(4) st by (auto simp: clashes_def)
  then have "checkSubdomainAvailability (c_subdomain dto) w"
    by (simp add: checkSubdomainAvailability_def findOneWhere_None)
  with r w nosub st show ?thesis by (simp add: I(2))
qed

theorem create_ddl_failure_compensates_witness:
  "createInsert ''t2'' globexDto acmeWorld =
     (Inr ((newTenant globexDto ''tenant_globex'')\<lparr>id' := ''t2''\<rparr>),
      acmeWorld\<lparr>tenants := [acmeTenant, (newTenant globexDto ''tenant_globex'')\<lparr>id' := ''t2''\<rparr>]\<rparr>)
   \<and> create ''t2'' False True globexDto acmeWorld =
       (Inl (BadRequestException ''Failed to create tenant database schema''), acmeWorld)
   \<and> checkSubdomainAvailability ''globex'' acmeWorld"
proof -
  have ins: "createInsert ''t2'' globexDto acmeWorld =
     (Inr ((newTenant globexDto ''tenant_globex'')\<lparr>id' := ''t2''\<rparr>),
      acmeWorld\<lparr>tenants := [acmeTenant, (newTenant globexDto ''tenant_globex'')\<lparr>id' := ''t2''\<rparr>]\<rparr>)"
    by (simp add: createInsert_def saveNew_def violatesUnique_def clashes_def findOneWhere_def
        newTenant_def globexDto_def acmeDto_def acmeTenant_def acmeWorld_def Let_def)
  obtain r w' where cr: "create ''t2'' False True globexDto acmeWorld = (r, w')"
    by (cases "create ''t2'' False True globexDto acmeWorld")
  have sd: "c_subdomain globexDto = ''globex''" by (simp add: globexDto_def)
  from create_ddl_failure_compensates [OF ins cr]
  have "r = Inl (BadRequestException ''Failed to create tenant database schema'')"
    and "w' = acmeWorld" and "checkSubdomainAvailability ''globex'' w'"
    by (auto simp: sd)
  with cr ins show ?thesis by simp
qed

text \<open>
  Claim C7: a successful \<open>create\<close> returns a tenant whose \<open>schemaName\<close> is
  \<^verbatim>\<open>tenant_\<close> followed by the draft's subdomain and whose status is \<open>ACTIVE\<close>;
  the record was first inserted in \<open>PENDING\<close>, and the returned tenant is that record
  with only the status flipped. The record is in the table and its schema exists.
\<close>

theorem create_success_schemaName_active:
  assumes "create newId ddlOk delOk dto w = (Inr t, w')"
  shows "schemaName t = ''tenant_'' @ c_subdomain dto \<and> status t = ACTIVE
    \<and> t \<in> set (tenants w') \<and> schemaName t \<in> set (schemas w')
    \<and> (\<exists>t0 w1. createInsert newId dto w = (Inr t0, w1) \<and> status t0 = PENDING
          \<and> t0 \<in> set (tenants w1) \<and> t = t0\<lparr>status := ACTIVE\<rparr>)"
proof -
  from assms obtain t0 w1 where ins: "createInsert newId dto w = (Inr t0, w1)"
    and prov: "createProvision ddlOk delOk t0 w1 = (Inr t, w')"
    by (auto simp: create_def split: sum.splits prod.splits)
  note I = createInsert_Inr [OF ins]
  have t0: "status t0 = PENDING" "schemaName t0 = ''tenant_'' @ c_subdomain dto" "id' t0 = newId"
    by (simp_all add: I(1) newTenant_def)
  from prov have ok: ddlOk
    by (auto simp: createProvision_def createTenantSchema_def split: if_splits)
  from prov ok obtain rows where
    sv: "save (t0\<lparr>status := ACTIVE\<rparr>) (tenants w1) = Inr (t, rows)"
    and w': "w' = w1\<lparr>schemas := List.insert (schemaName t0) (schemas w1), tenants := rows\<rparr>"
    by (auto simp: createProvision_def createTenantSchema_def split: sum.splits)
  note S = save_Inr [OF sv]
  have mem: "t \<in> set (tenants w')"
    using S t0 by (simp add: w' I(2))
  have "schemaName t \<in> set (schemas w')"
    using S(1) by (simp add: w')
  with mem S(1) t0 ins I(2) show ?thesis by simp
qed

theorem create_success_schemaName_active_witness:
  "create ''t1'' True True acmeDto emptyWorld =
     (Inr acmeTenant, emptyWorld\<lparr>tenants := [acmeTenant], schemas := [''tenant_acme'']\<rparr>)
   \<and> schemaName acmeTenant = ''tenant_acme'' \<and> status acmeTenant = ACTIVE"
proof -
  have h: "create ''t1'' True True acmeDto emptyWorld =
     (Inr acmeTenant, emptyWorld\<lparr>tenants := [acmeTenant], schemas := [''tenant_acme'']\<rparr>)"
    by (simp add: create_def createInsert_def createProvision_def createTenantSchema_def
      saveNew_def save_def violatesUnique_def findOneWhere_def newTenant_def
      acmeDto_def acmeTenant_def emptyWorld_def Let_def)
  from create_success_schemaName_active [OF h] h show ?thesis
    by (simp add: acmeDto_def)
qed

section \<open>Deprovisioning: remove\<close>

text \<open>
  Claim C4: when the schema drop fails, \<open>remove\<close> ends with an error and the whole
  state is as before: the tenant is still found under its id, unchanged, so an
  \<open>ACTIVE\<close> tenant is still \<open>ACTIVE\<close> and the removal can be tried again.
\<close>

theorem remove_drop_failure_unchanged:
  assumes "findOne i w = Inr t" and "remove i False w = (r, w')"
  shows "r = Inl (BadRequestException ''Failed to remove tenant and its data'')
    \<and> w' = w \<and> findOne i w' = Inr t"
  using assms by (auto simp: remove_def dropTenantSchema_def)

theorem remove_drop_failure_unchanged_witness:
  "findOne ''t1'' acmeWorld = Inr acmeTenant
   \<and> remove ''t1'' False acmeWorld =
       (Inl (BadRequestException ''Failed to remove tenant and its data''), acmeWorld)
   \<and> status acmeTenant = ACTIVE"
proof -
  have f: "findOne ''t1'' acmeWorld = Inr acmeTenant"
    by (simp add: findOne_def findOneWhere_def acmeWorld_def acmeTenant_def)
  obtain r w' where rm: "remove ''t1'' False acmeWorld = (r, w')"
    by (cases "remove ''t1'' False acmeWorld")
  from remove_drop_failure_unchanged [OF f rm]
  have "r = Inl (BadRequestException ''Failed to remove tenant and its data'')" and "w' = acmeWorld"
    by auto
  with rm f show ?thesis by (simp add: acmeTenant_def)
qed

section \<open>Directory writes keep the schema name\<close>

text \<open>
  Claim C8: \<open>update\<close>, \<open>suspend\<close> and \<open>activate\<close> never change a
  \<open>schemaName\<close>. A returned tenant has the id and the schema name it was loaded
  with, also when the update changes the subdomain; a failed operation changes
  nothing; and in a table whose primary key is unique every row keeps its id and its
  schema name, whatever the outcome.
\<close>

theorem write_keeps_schemaName:
  assumes a: "applyWrite op i w = (r, w')"
  shows "(\<forall>t t'. findOne i w = Inr t \<and> r = Inr t' \<longrightarrow>
            schemaName t' = schemaName t \<and> id' t' = id' t)
    \<and> (\<forall>e. r = Inl e \<longrightarrow> w' = w)
    \<and> (distinct (map id' (tenants w)) \<longrightarrow>
          map (\<lambda>x. (id' x, schemaName x)) (tenants w')
            = map (\<lambda>x. (id' x, schemaName x)) (tenants w))"
proof (cases "findOne i w")
  case (Inl e)
  with a show ?thesis by (cases op) (auto simp: update_def suspend_def activate_def)
next
  case (Inr t)
  note F = findOne_Inr [OF Inr]
  obtain u where u: "schemaName u = schemaName t" "id' u = id' t"
    and s: "(r, w') = saveTenant u w \<or> (w' = w \<and> (\<exists>e. r = Inl e))"
  proof (cases op)
    case (Update dto)
    show ?thesis
      using that [of "assign t dto"] a Update Inr
      by (auto simp: update_def schemaName_assign split: if_splits)
  next
    case Suspend
    show ?thesis
      using that [of "t\<lparr>status := SUSPENDED, isActive := False\<rparr>"] a Suspend Inr
      by (auto simp: suspend_def)
  next
    case Activate
    show ?thesis
      using that [of "t\<lparr>status := ACTIVE, isActive := True\<rparr>"] a Activate Inr
      by (auto simp: activate_def)
  qed
  show ?thesis
  proof (cases r)
    case (Inl e)
    with s have "w' = w" by (auto dest: saveTenant_Inl [OF sym])
    with Inl show ?thesis by simp
  next
    case r: (Inr t')
    with s have sv: "saveTenant u w = (Inr t', w')" by auto
    note S = saveTenant_Inr [OF sv]
    have "distinct (map id' (tenants w)) \<longrightarrow>
        map (\<lambda>x. (id' x, schemaName x)) (tenants w') = map (\<lambda>x. (id' x, schemaName x)) (tenants w)"
      unfolding S(2) using save_keeps_keys [OF _ _ u] F by simp
    with S(1) u Inr r show ?thesis by simp
  qed
qed

theorem write_keeps_schemaName_witness:
  "distinct (map id' (tenants acmeWorld))
   \<and> findOne ''t1'' acmeWorld = Inr acmeTenant
   \<and> fst (update ''t1'' (emptyUpdate\<lparr>u_subdomain := Some ''acme2''\<rparr>) acmeWorld)
       = Inr (acmeTenant\<lparr>subdomain := ''acme2''\<rparr>)
   \<and> schemaName (acmeTenant\<lparr>subdomain := ''acme2''\<rparr>) = schemaName acmeTenant
   \<and> map (\<lambda>x. (id' x, schemaName x))
        (tenants (snd (update ''t1'' (emptyUpdate\<lparr>u_subdomain := Some ''acme2''\<rparr>) acmeWorld)))
       = [(''t1'', ''tenant_acme'')]"
proof -
  let ?dto = "emptyUpdate\<lparr>u_subdomain := Some ''acme2''\<rparr>"
  have d: "distinct (map id' (tenants acmeWorld))" by (simp add: acmeWorld_def)
  have f: "findOne ''t1'' acmeWorld = Inr acmeTenant"
    by (simp add: findOne_def findOneWhere_def acmeWorld_def acmeTenant_def)
  have u: "fst (update ''t1'' ?dto acmeWorld) = Inr (acmeTenant\<lparr>subdomain := ''acme2''\<rparr>)"
    by (simp add: update_def findOne_def findOneWhere_def updateConflict_def saveTenant_def save_def
      violatesUnique_def assign_def emptyUpdate_def acmeWorld_def acmeTenant_def)
  obtain r w' where up: "update ''t1'' ?dto acmeWorld = (r, w')"
    by (cases "update ''t1'' ?dto acmeWorld")
  then have a: "applyWrite (Update ?dto) ''t1'' acmeWorld = (r, w')" by simp
  have k: "map (\<lambda>x. (id' x, schemaName x)) (tenants acmeWorld) = [(''t1'', ''tenant_acme'')]"
    by (simp add: acmeWorld_def acmeTenant_def)
  from u up have r: "r = Inr (acmeTenant\<lparr>subdomain := ''acme2''\<rparr>)" by simp
  from write_keeps_schemaName [OF a]
  have "map (\<lambda>x. (id' x, schemaName x)) (tenants w') = map (\<lambda>x. (id' x, schemaName x)) (tenants acmeWorld)"
    and "schemaName (acmeTenant\<lparr>subdomain := ''acme2''\<rparr>) = schemaName acmeTenant"
    using f r d by auto
  with d f u up k show ?thesis by simp
qed

section \<open>The connection registry\<close>

text \<open>
  Claim C6: when the initialization fails for a schema that has no cache entry, the
  call ends with the connection error, the cache is unchanged and still has no entry
  for the schema, no connection was counted or became live, and a later call for the
  same schema starts a new initialization which, when it succeeds, is cached.
\<close>

theorem getTenantConnection_failure_leaves_cache:
  assumes absent: "map_of (tenantConnections w) s = None"
    and call: "getTenantConnection False s w = (r, w')"
  shows "r = Inl ConnectionFailedError
    \<and> tenantConnections w' = tenantConnections w
    \<and> map_of (tenantConnections w') s = None
    \<and> initCount w' = initCount w
    \<and> (\<forall>h. \<not> isInitialized w' h \<or> isInitialized w h)
    \<and> (\<exists>h w''. getTenantConnection True s w' = (Inr h, w'')
          \<and> initCount w'' = Suc (initCount w)
          \<and> map_of (tenantConnections w'') s = Some h \<and> isInitialized w'' h)"
proof -
  from call have r: "r = Inl ConnectionFailedError"
    and w': "w' = w\<lparr>dataSources := dataSources w @ [False]\<rparr>"
    by (simp_all add: getTenantConnection_def enter_absent [OF absent] getTenantConnection_resume_def)
  have absent': "map_of (tenantConnections w') s = None"
    using absent by (simp add: w')
  have live: "\<forall>h. \<not> isInitialized w' h \<or> isInitialized w h"
    by (auto simp: w' isInitialized_def nth_append split: if_splits)
  let ?w2 = "w'\<lparr>dataSources := (dataSources w' @ [False])[length (dataSources w') := True],
                initCount := Suc (initCount w'),
                tenantConnections := AList.update s (length (dataSources w')) (tenantConnections w')\<rparr>"
  have g: "getTenantConnection True s w' = (Inr (length (dataSources w')), ?w2)"
    by (simp add: getTenantConnection_def enter_absent [OF absent'] getTenantConnection_resume_def)
  have "initCount ?w2 = Suc (initCount w)
      \<and> map_of (tenantConnections ?w2) s = Some (length (dataSources w'))
      \<and> isInitialized ?w2 (length (dataSources w'))"
    by (simp add: AList.update_conv' isInitialized_def w')
  with g have again: "\<exists>h w''. getTenantConnection True s w' = (Inr h, w'')
          \<and> initCount w'' = Suc (initCount w)
          \<and> map_of (tenantConnections w'') s = Some h \<and> isInitialized w'' h"
    by blast
  from r absent' live again show ?thesis by (simp add: w')
qed

theorem getTenantConnection_failure_leaves_cache_witness:
  "map_of (tenantConnections acmeWorld) ''tenant_globex'' = None
   \<and> fst (getTenantConnection False ''tenant_globex'' acmeWorld) = Inl ConnectionFailedError
   \<and> tenantConnections (snd (getTenantConnection False ''tenant_globex'' acmeWorld))
       = [(''tenant_acme'', 0)]"
proof -
  have a: "map_of (tenantConnections acmeWorld) ''tenant_globex'' = None"
    by (simp add: acmeWorld_def)
  obtain r w' where c: "getTenantConnection False ''tenant_globex'' acmeWorld = (r, w')"
    by (cases "getTenantConnection False ''tenant_globex'' acmeWorld")
  have t: "tenantConnections acmeWorld = [(''tenant_acme'', 0)]" by (simp add: acmeWorld_def)
  from getTenantConnection_failure_leaves_cache [OF a c]
  have "r = Inl ConnectionFailedError" and "tenantConnections w' = tenantConnections acmeWorld"
    by auto
  with c a t show ?thesis by simp
qed

text \<open>
  Claim C9: \<open>closeTenantConnection\<close> destroys a live cached connection and removes
  its entry; with no entry, or with an entry whose connection is already closed, it
  changes nothing; and calling it twice is the same as calling it once.
\<close>

theorem closeTenantConnection_idempotent:
  "closeTenantConnection s (closeTenantConnection s w) = closeTenantConnection s w
   \<and> (map_of (tenantConnections w) s = None \<longrightarrow> closeTenantConnection s w = w)
   \<and> (\<forall>h. map_of (tenantConnections w) s = Some h \<and> \<not> isInitialized w h
          \<longrightarrow> closeTenantConnection s w = w)
   \<and> (\<forall>h. map_of (tenantConnections w) s = Some h \<and> isInitialized w h
          \<longrightarrow> map_of (tenantConnections (closeTenantConnection s w)) s = None
              \<and> \<not> isInitialized (closeTenantConnection s w) h
              \<and> schemas (closeTenantConnection s w) = schemas w
              \<and> tenants (closeTenantConnection s w) = tenants w)"
proof -
  have idem: "closeTenantConnection s (closeTenantConnection s w) = closeTenantConnection s w"
  proof (cases "map_of (tenantConnections w) s")
    case None
    then show ?thesis by (simp add: closeTenantConnection_def)
  next
    case (Some h)
    show ?thesis
    proof (cases "isInitialized w h")
      case True
      have "map_of (tenantConnections (closeTenantConnection s w)) s = None"
        using Some True by (simp add: closeTenantConnection_def map_of_delete_same)
      then show ?thesis by (simp add: closeTenantConnection_def [of s "closeTenantConnection s w"])
    next
      case False
      with Some show ?thesis by (simp add: closeTenantConnection_def)
    qed
  qed
  moreover have "\<And>h. map_of (tenantConnections w) s = Some h \<Longrightarrow> isInitialized w h \<Longrightarrow>
      \<not> isInitialized (closeTenantConnection s w) h"
    by (simp add: closeTenantConnection_def destroy_def isInitialized_def)
  ultimately show ?thesis
    by (auto simp: closeTenantConnection_def map_of_delete_same destroy_def)
qed

theorem closeTenantConnection_idempotent_witness:
  "map_of (tenantConnections acmeWorld) ''tenant_acme'' = Some 0 \<and> isInitialized acmeWorld 0
   \<and> closeTenantConnection ''tenant_acme'' (closeTenantConnection ''tenant_acme'' acmeWorld)
       = closeTenantConnection ''tenant_acme'' acmeWorld
   \<and> map_of (tenantConnections (closeTenantConnection ''tenant_acme'' acmeWorld)) ''tenant_acme'' = None
   \<and> \<not> isInitialized (closeTenantConnection ''tenant_acme'' acmeWorld) 0
   \<and> closeTenantConnection ''tenant_globex'' acmeWorld = acmeWorld
   \<and> closeTenantConnection ''tenant_acme'' (destroy 0 acmeWorld) = destroy 0 acmeWorld"
proof -
  have a: "map_of (tenantConnections acmeWorld) ''tenant_acme'' = Some 0 \<and> isInitialized acmeWorld 0"
    by (simp add: acmeWorld_def isInitialized_def)
  have b: "map_of (tenantConnections acmeWorld) ''tenant_globex'' = None"
    by (simp add: acmeWorld_def)
  have c: "map_of (tenantConnections (destroy 0 acmeWorld)) ''tenant_acme'' = Some 0
      \<and> \<not> isInitialized (destroy 0 acmeWorld) 0"
    by (simp add: acmeWorld_def isInitialized_def destroy_def)
  from closeTenantConnection_idempotent [of "''tenant_acme''" acmeWorld]
    closeTenantConnection_idempotent [of "''tenant_globex''" acmeWorld]
    closeTenantConnection_idempotent [of "''tenant_acme''" "destroy 0 acmeWorld"]
    a b c show ?thesis by blast
qed

text \<open>
  Claim C10: a successful \<open>dropTenantSchema\<close>, alone or inside \<open>remove\<close>, takes
  the schema's entry out of the map and destroys nothing: no \<^verbatim>\<open>DataSource\<close> changes,
  the connection that was cached is still live, and (handles being cached under one
  key each) the map no longer refers to it. \<open>closeTenantConnection\<close> both destroys
  the connection and removes the entry.
\<close>

theorem drop_evicts_without_destroy:
  assumes cached: "map_of (tenantConnections w) s = Some h" and live: "isInitialized w h"
  shows "(\<exists>w'. dropTenantSchema True s w = (Inr (), w')
            \<and> map_of (tenantConnections w') s = None
            \<and> dataSources w' = dataSources w \<and> isInitialized w' h
            \<and> (distinct (map snd (tenantConnections w))
                 \<longrightarrow> h \<notin> snd ` set (tenantConnections w')))
    \<and> (\<forall>i t. findOne i w = Inr t \<and> schemaName t = s \<longrightarrow>
          (\<exists>w'. remove i True w = (Inr (), w')
            \<and> map_of (tenantConnections w') s = None
            \<and> dataSources w' = dataSources w \<and> isInitialized w' h))
    \<and> map_of (tenantConnections (closeTenantConnection s w)) s = None
    \<and> \<not> isInitialized (closeTenantConnection s w) h"
proof -
  have drop: "dropTenantSchema True s w =
      (Inr (), w\<lparr>schemas := removeAll s (schemas w),
                 tenantConnections := AList.delete s (tenantConnections w)\<rparr>)"
    by (simp add: dropTenantSchema_def)
  have 1: "\<exists>w'. dropTenantSchema True s w = (Inr (), w')
            \<and> map_of (tenantConnections w') s = None
            \<and> dataSources w' = dataSources w \<and> isInitialized w' h
            \<and> (distinct (map snd (tenantConnections w))
                 \<longrightarrow> h \<notin> snd ` set (tenantConnections w'))"
    using live delete_unreferenced [OF _ cached]
    by (simp add: drop map_of_delete_same isInitialized_def)
  have 2: "\<forall>i t. findOne i w = Inr t \<and> schemaName t = s \<longrightarrow>
          (\<exists>w'. remove i True w = (Inr (), w')
            \<and> map_of (tenantConnections w') s = None
            \<and> dataSources w' = dataSources w \<and> isInitialized w' h)"
    using live by (auto simp: remove_def drop map_of_delete_same isInitialized_def)
  have 3: "map_of (tenantConnections (closeTenantConnection s w)) s = None
    \<and> \<not> isInitialized (closeTenantConnection s w) h"
    using cached live
    by (simp add: closeTenantConnection_def map_of_delete_same destroy_def isInitialized_def)
  from 1 2 3 show ?thesis by blast
qed

theorem drop_evicts_without_destroy_witness:
  "map_of (tenantConnections acmeWorld) ''tenant_acme'' = Some 0 \<and> isInitialized acmeWorld 0
   \<and> distinct (map snd (tenantConnections acmeWorld))
   \<and> findOne ''t1'' acmeWorld = Inr acmeTenant \<and> schemaName acmeTenant = ''tenant_acme''
   \<and> (\<exists>w'. remove ''t1'' True acmeWorld = (Inr (), w')
         \<and> map_of (tenantConnections w') ''tenant_acme'' = None \<and> isInitialized w' 0)
   \<and> (\<exists>w'. dropTenantSchema True ''tenant_acme'' acmeWorld = (Inr (), w')
         \<and> isInitialized w' 0 \<and> 0 \<notin> snd ` set (tenantConnections w'))
   \<and> \<not> isInitialized (closeTenantConnection ''tenant_acme'' acmeWorld) 0"
proof -
  have a: "map_of (tenantConnections acmeWorld) ''tenant_acme'' = Some 0"
    and b: "isInitialized acmeWorld 0"
    and d: "distinct (map snd (tenantConnections acmeWorld))"
    by (simp_all add: acmeWorld_def isInitialized_def)
  have f: "findOne ''t1'' acmeWorld = Inr acmeTenant \<and> schemaName acmeTenant = ''tenant_acme''"
    by (simp add: findOne_def findOneWhere_def acmeWorld_def acmeTenant_def)
  from drop_evicts_without_destroy [OF a b] a b d f show ?thesis by blast
qed

text \<open>
  Claim C2, as stated: two concurrent calls for a schema never cached before establish
  one connection and return the same handle. With both calls started before either
  initialization settles, each call finds the map empty and initializes a
  \<^verbatim>\<open>DataSource\<close> of its own: two connections, two different handles.
\<close>

theorem twoOverlappingGets_counterexample:
  "map_of (tenantConnections emptyWorld) ''tenant_acme'' = None
   \<and> twoOverlappingGets True True True ''tenant_acme'' emptyWorld =
       (Inr 0, Inr 1,
        emptyWorld\<lparr>dataSources := [True, True], tenantConnections := [(''tenant_acme'', 1)],
                   initCount := 2\<rparr>)"
  by (simp add: twoOverlappingGets_def getTenantConnection_enter_def getTenantConnection_resume_def
      emptyWorld_def)

text \<open>
  Claim C2, amended: for a schema with no cache entry, two calls of which the second
  starts after the first has returned establish one connection and return the same
  live handle; two calls that overlap establish two connections and return different
  live handles, and the map keeps the handle of the call that settled last.
\<close>

theorem get_sequential_or_overlapping:
  assumes absent: "map_of (tenantConnections w) s = None"
  shows "(\<exists>h w1. getTenantConnection True s w = (Inr h, w1)
            \<and> initCount w1 = Suc (initCount w) \<and> isInitialized w1 h
            \<and> getTenantConnection ok2 s w1 = (Inr h, w1))
    \<and> (\<exists>ha hb w2. twoOverlappingGets aFirst True True s w = (Inr ha, Inr hb, w2)
            \<and> ha \<noteq> hb \<and> initCount w2 = initCount w + 2
            \<and> isInitialized w2 ha \<and> isInitialized w2 hb
            \<and> map_of (tenantConnections w2) s = Some (if aFirst then hb else ha))"
proof -
  let ?n = "length (dataSources w)"
  let ?w1 = "w\<lparr>dataSources := dataSources w @ [False]\<rparr>"
  have e1: "getTenantConnection_enter s w = (Awaiting ?n, ?w1)"
    by (rule enter_absent [OF absent])
  have absent1: "map_of (tenantConnections ?w1) s = None" using absent by simp
  have e2: "getTenantConnection_enter s ?w1 =
      (Awaiting (Suc ?n), ?w1\<lparr>dataSources := dataSources ?w1 @ [False]\<rparr>)"
    using enter_absent [OF absent1] by simp
  let ?w3 = "?w1\<lparr>dataSources := (dataSources ?w1)[?n := True],
                initCount := Suc (initCount ?w1),
                tenantConnections := AList.update s ?n (tenantConnections ?w1)\<rparr>"
  have g1: "getTenantConnection True s w = (Inr ?n, ?w3)"
    by (simp add: getTenantConnection_def e1 getTenantConnection_resume_def)
  have c3: "map_of (tenantConnections ?w3) s = Some ?n"
    by (simp add: AList.update_conv')
  have g2: "getTenantConnection ok2 s ?w3 = (Inr ?n, ?w3)"
    unfolding getTenantConnection_def enter_cached [OF c3] by simp
  have "initCount ?w3 = Suc (initCount w) \<and> isInitialized ?w3 ?n"
    by (simp add: isInitialized_def)
  with g1 g2 have seq: "\<exists>h w1. getTenantConnection True s w = (Inr h, w1)
            \<and> initCount w1 = Suc (initCount w) \<and> isInitialized w1 h
            \<and> getTenantConnection ok2 s w1 = (Inr h, w1)"
    by blast
  have ovl: "\<exists>ha hb w2. twoOverlappingGets aFirst True True s w = (Inr ha, Inr hb, w2)
            \<and> ha \<noteq> hb \<and> initCount w2 = initCount w + 2
            \<and> isInitialized w2 ha \<and> isInitialized w2 hb
            \<and> map_of (tenantConnections w2) s = Some (if aFirst then hb else ha)"
    by (cases aFirst)
      (simp_all add: twoOverlappingGets_def e1 e2 getTenantConnection_resume_def
        AList.update_conv' isInitialized_def nth_append nth_list_update)
  from seq ovl show ?thesis by blast
qed

theorem get_sequential_or_overlapping_witness:
  "map_of (tenantConnections emptyWorld) ''tenant_acme'' = None
   \<and> (\<exists>h w1. getTenantConnection True ''tenant_acme'' emptyWorld = (Inr h, w1)
         \<and> initCount w1 = 1 \<and> getTenantConnection True ''tenant_acme'' w1 = (Inr h, w1))
   \<and> (\<exists>ha hb w2. twoOverlappingGets False True True ''tenant_acme'' emptyWorld = (Inr ha, Inr hb, w2)
         \<and> ha \<noteq> hb \<and> initCount w2 = 2)"
proof -
  have a: "map_of (tenantConnections emptyWorld) ''tenant_acme'' = None"
    by (simp add: emptyWorld_def)
  have i: "initCount emptyWorld = 0" by (simp add: emptyWorld_def)
  from get_sequential_or_overlapping [OF a, of True False] a i show ?thesis
    by auto
qed

end
